theory Spec2Isabelle
  imports Main "HOL-Library.AList"
begin

section \<open>Python values and the built-in operations the bot relies on\<close>

text \<open>
  The bot (\<^verbatim>\<open>agent.py\<close>, \<^verbatim>\<open>app.py\<close>) is Python. Strings are modelled as lists of
  characters, a Python \<^verbatim>\<open>dict\<close> whose iteration order is observed as an association list
  in insertion order, and an exception as a value \<open>Raised cls msg\<close> carried in the left
  summand of a result.  JSON numbers are restricted to integers: floating point values
  are outside the model.
\<close>

datatype json =
    JNull
  | JBool bool
  | JInt int
  | JStr string
  | JArr "json list"
  | JObj "(string \<times> json) list"

datatype py_error = Raised (exc_class: string) (exc_str: string)

type_synonym ('k, 'v) dict = "('k \<times> 'v) list"

text \<open>\<^verbatim>\<open>k in d\<close>, \<^verbatim>\<open>d.get(k, default)\<close>, \<^verbatim>\<open>d[k] = v\<close> and \<^verbatim>\<open>d[k]\<close>.  Assigning to a key
  that is already present keeps its position, a new key goes to the end; reading a
  missing key raises \<^verbatim>\<open>KeyError\<close>.\<close>

definition dict_contains :: "('k, 'v) dict \<Rightarrow> 'k \<Rightarrow> bool" where
  "dict_contains d k = (k \<in> fst ` set d)"

definition dict_get :: "('k, 'v) dict \<Rightarrow> 'k \<Rightarrow> 'v \<Rightarrow> 'v" where
  "dict_get d k dflt = (case map_of d k of None \<Rightarrow> dflt | Some v \<Rightarrow> v)"

definition dict_setitem :: "('k, 'v) dict \<Rightarrow> 'k \<Rightarrow> 'v \<Rightarrow> ('k, 'v) dict" where
  "dict_setitem d k v = AList.update k v d"

definition dict_getitem :: "(string, 'v) dict \<Rightarrow> string \<Rightarrow> py_error + 'v" where
  "dict_getitem d k =
     (case map_of d k of
        None \<Rightarrow> Inl (Raised ''KeyError'' ([CHR 0x27] @ k @ [CHR 0x27]))
      | Some v \<Rightarrow> Inr v)"

text \<open>\<^verbatim>\<open>str.strip()\<close> removes leading and trailing white space; the white space
  characters below code point 256 are listed.\<close>

definition py_isspace :: "char \<Rightarrow> bool" where
  "py_isspace c =
     (let n = (of_char c :: nat)
      in (9 \<le> n \<and> n \<le> 13) \<or> (28 \<le> n \<and> n \<le> 32) \<or> n = 133 \<or> n = 160)"

definition py_lstrip :: "string \<Rightarrow> string" where
  "py_lstrip s = dropWhile py_isspace s"

definition py_rstrip :: "string \<Rightarrow> string" where
  "py_rstrip s = rev (dropWhile py_isspace (rev s))"

definition py_strip :: "string \<Rightarrow> string" where
  "py_strip s = py_rstrip (py_lstrip s)"

text \<open>\<^verbatim>\<open>str.upper()\<close> on the letters \<open>a\<close> to \<open>z\<close>; every other character is left as
  it is.  No character outside \<open>a\<close>..\<open>z\<close> has an upper-case form among the letters of
  \<^verbatim>\<open>NONE\<close>, the only text an upper-cased string is compared with.\<close>

definition upper_char :: "char \<Rightarrow> char" where
  "upper_char c =
     (case map_of (zip ''abcdefghijklmnopqrstuvwxyz'' ''ABCDEFGHIJKLMNOPQRSTUVWXYZ'') c of
        None \<Rightarrow> c
      | Some u \<Rightarrow> u)"

definition py_upper :: "string \<Rightarrow> string" where
  "py_upper s = map upper_char s"

definition lower_char :: "char \<Rightarrow> char" where
  "lower_char c =
     (case map_of (zip ''ABCDEFGHIJKLMNOPQRSTUVWXYZ'' ''abcdefghijklmnopqrstuvwxyz'') c of
        None \<Rightarrow> c
      | Some l \<Rightarrow> l)"

definition py_lower :: "string \<Rightarrow> string" where
  "py_lower s = map lower_char s"

text \<open>\<^verbatim>\<open>s.split(c)\<close> for a one-character separator: always at least one piece.\<close>

fun py_split :: "char \<Rightarrow> string \<Rightarrow> string list" where
  "py_split c [] = [[]]"
| "py_split c (x # xs) =
     (if x = c then [] # py_split c xs
      else (case py_split c xs of
              [] \<Rightarrow> [[x]]
            | w # ws \<Rightarrow> (x # w) # ws))"

text \<open>\<^verbatim>\<open>sep.join(parts)\<close> for a list of strings.\<close>

fun py_join :: "string \<Rightarrow> string list \<Rightarrow> string" where
  "py_join sep [] = []"
| "py_join sep [x] = x"
| "py_join sep (x # y # ys) = x @ sep @ py_join sep (y # ys)"

text \<open>\<^verbatim>\<open>str(i)\<close> for an integer, in decimal.\<close>

definition digit_char :: "nat \<Rightarrow> char" where
  "digit_char d =
     (if d = 0 then CHR ''0'' else if d = 1 then CHR ''1'' else if d = 2 then CHR ''2''
      else if d = 3 then CHR ''3'' else if d = 4 then CHR ''4'' else if d = 5 then CHR ''5''
      else if d = 6 then CHR ''6'' else if d = 7 then CHR ''7'' else if d = 8 then CHR ''8''
      else CHR ''9'')"

fun str_nat :: "nat \<Rightarrow> string" where
  "str_nat n =
     (if n < 10 then [digit_char n] else str_nat (n div 10) @ [digit_char (n mod 10)])"

definition str_int :: "int \<Rightarrow> string" where
  "str_int i = (if i < 0 then CHR ''-'' # str_nat (nat (- i)) else str_nat (nat i))"

text \<open>The slices \<^verbatim>\<open>xs[:n]\<close> (a negative \<open>n\<close> counts from the end) and \<^verbatim>\<open>xs[-n:]\<close> for a
  positive constant \<open>n\<close>.\<close>

definition py_slice_to :: "int \<Rightarrow> 'a list \<Rightarrow> 'a list" where
  "py_slice_to n xs =
     (if 0 \<le> n then take (nat n) xs else take (length xs - nat (- n)) xs)"

definition py_slice_last :: "nat \<Rightarrow> 'a list \<Rightarrow> 'a list" where
  "py_slice_last n xs = drop (length xs - n) xs"

text \<open>Truth value and type name of a JSON value, and the text an f-string puts in for
  it.  A string is inserted as it is; what \<^verbatim>\<open>str()\<close> gives for the other values
  (numbers, \<^verbatim>\<open>None\<close>, nested lists and dicts) is the interpreter's business and is taken
  as the parameter \<open>repr_other\<close>.\<close>

fun py_truthy :: "json \<Rightarrow> bool" where
  "py_truthy JNull = False"
| "py_truthy (JBool b) = b"
| "py_truthy (JInt i) = (i \<noteq> 0)"
| "py_truthy (JStr s) = (s \<noteq> [])"
| "py_truthy (JArr xs) = (xs \<noteq> [])"
| "py_truthy (JObj kvs) = (kvs \<noteq> [])"

fun type_name :: "json \<Rightarrow> string" where
  "type_name JNull = ''NoneType''"
| "type_name (JBool b) = ''bool''"
| "type_name (JInt i) = ''int''"
| "type_name (JStr s) = ''str''"
| "type_name (JArr xs) = ''list''"
| "type_name (JObj kvs) = ''dict''"

fun py_str :: "(json \<Rightarrow> string) \<Rightarrow> json \<Rightarrow> string" where
  "py_str repr_other (JStr s) = s"
| "py_str repr_other v = repr_other v"

text \<open>\<^verbatim>\<open>sep.join(v)\<close> for a JSON value \<open>v\<close>: a string is iterated character by
  character, a dict by its keys, a list must hold strings only, anything else is not
  iterable.\<close>

fun join_items :: "nat \<Rightarrow> json list \<Rightarrow> py_error + string list" where
  "join_items i [] = Inr []"
| "join_items i (JStr s # vs) =
     (case join_items (Suc i) vs of Inl e \<Rightarrow> Inl e | Inr ss \<Rightarrow> Inr (s # ss))"
| "join_items i (v # vs) =
     Inl (Raised ''TypeError''
            (''sequence item '' @ str_nat i @ '': expected str instance, ''
               @ type_name v @ '' found''))"

fun py_join_json :: "string \<Rightarrow> json \<Rightarrow> py_error + string" where
  "py_join_json sep (JStr s) = Inr (py_join sep (map (\<lambda>c. [c]) s))"
| "py_join_json sep (JArr vs) =
     (case join_items 0 vs of Inl e \<Rightarrow> Inl e | Inr ss \<Rightarrow> Inr (py_join sep ss))"
| "py_join_json sep (JObj kvs) = Inr (py_join sep (map fst kvs))"
| "py_join_json sep v = Inl (Raised ''TypeError'' ''can only join an iterable'')"

section \<open>Log records\<close>

text \<open>Every call of \<^verbatim>\<open>logger.debug/info/warning/error\<close> is recorded with its level and
  the values its message is built from.\<close>

datatype level = DEBUG | INFO | WARNING | ERROR

datatype log_msg =
    Directory_not_found string
  | Loaded_doc json
  | Error_loading string py_error
  | Loaded_documents nat string
  | No_documents_loaded
  | Querying_Haiku string
  | Haiku_response string
  | Cache_created int
  | Cache_hit int
  | No_relevant_documents
  | IDs_not_found "string set"
  | Selected_documents nat "string list"
  | Error_calling_Haiku py_error
  | Added_documents nat
  | Claude_API_error py_error

type_synonym log_entry = "level \<times> log_msg"

section \<open>The document store: class DocumentIndex\<close>

type_synonym doc = "(string, json) dict"

record DocumentIndex =
  documents :: "(string, doc) dict"
  loaded :: bool
  summaries_cache :: string

definition DocumentIndex_init :: DocumentIndex where
  "DocumentIndex_init = \<lparr>documents = [], loaded = False, summaries_cache = []\<rparr>"

text \<open>
  The file system as \<^verbatim>\<open>load_from_directory\<close> sees it: a path that does not exist, or
  the files \<^verbatim>\<open>glob("*.json")\<close> yields, in the order it yields them.  Each file has its
  stem, its path as text, and what \<^verbatim>\<open>open\<close> and \<^verbatim>\<open>json.load\<close> produce: an exception or
  a JSON value.
\<close>

record json_file =
  file_stem :: string
  file_path :: string
  file_json :: "py_error + json"

type_synonym filesystem = "string \<Rightarrow> json_file list option"

text \<open>\<^verbatim>\<open>doc['id'] = doc_id\<close> on whatever \<^verbatim>\<open>json.load\<close> returned: only a dict accepts
  it, any other value raises \<^verbatim>\<open>TypeError\<close>.\<close>

fun setitem_error :: "json \<Rightarrow> py_error" where
  "setitem_error (JArr xs) =
     Raised ''TypeError'' ''list indices must be integers or slices, not str''"
| "setitem_error j =
     Raised ''TypeError''
       ([CHR 0x27] @ type_name j @ [CHR 0x27] @ '' object does not support item assignment'')"

text \<open>The body of the \<^verbatim>\<open>try\<close> for one file: the document to store, or the exception
  that the \<^verbatim>\<open>except\<close> clause logs.\<close>

definition load_file :: "json_file \<Rightarrow> py_error + doc" where
  "load_file f =
     (case file_json f of
        Inl e \<Rightarrow> Inl e
      | Inr (JObj d) \<Rightarrow>
          Inr (dict_setitem (dict_setitem d ''id'' (JStr (file_stem f)))
                 ''filepath'' (JStr (file_path f)))
      | Inr j \<Rightarrow> Inl (setitem_error j))"

text \<open>The \<^verbatim>\<open>for filepath in dir_path.glob("*.json")\<close> loop, over the documents and the
  log.\<close>

fun load_files ::
  "json_file list \<Rightarrow> (string, doc) dict \<times> log_entry list
     \<Rightarrow> (string, doc) dict \<times> log_entry list" where
  "load_files [] (docs, lg) = (docs, lg)"
| "load_files (f # fs) (docs, lg) =
     (case load_file f of
        Inr d \<Rightarrow>
          load_files fs
            (dict_setitem docs (file_stem f) d,
             lg @ [(DEBUG, Loaded_doc (dict_get d ''title'' (JStr (file_stem f))))])
      | Inl e \<Rightarrow>
          load_files fs (docs, lg @ [(ERROR, Error_loading (file_path f) e)]))"

definition load_from_directory ::
  "filesystem \<Rightarrow> string \<Rightarrow> DocumentIndex \<times> log_entry list
     \<Rightarrow> DocumentIndex \<times> log_entry list" where
  "load_from_directory fs directory = (\<lambda>(self, lg).
     (case fs directory of
        None \<Rightarrow> (self, lg @ [(WARNING, Directory_not_found directory)])
      | Some files \<Rightarrow>
          (let (docs, lg1) = load_files files (documents self, lg);
               self1 = self\<lparr>documents := docs, loaded := True, summaries_cache := []\<rparr>
           in (self1, lg1 @ [(INFO, Loaded_documents (length docs) directory)]))))"

text \<open>\<^verbatim>\<open>get_summaries_for_selection\<close>: one entry per document, numbered from 1.\<close>

definition summary_entry ::
  "(json \<Rightarrow> string) \<Rightarrow> nat \<Rightarrow> string \<Rightarrow> doc \<Rightarrow> py_error + string" where
  "summary_entry repr_other i doc_id d =
     (let title = dict_get d ''title'' (JStr ''Untitled'');
          summary = dict_get d ''claude_summary'' (dict_get d ''short_description'' (JStr []));
          keywords = dict_get d ''keywords'' (JArr []);
          category = dict_get d ''category'' (JStr []);
          entry0 = ''['' @ str_nat i @ ''] '' @ doc_id @ ''\<newline>'';
          entry1 = entry0 @ ''    Title: '' @ py_str repr_other title @ ''\<newline>'';
          entry2 = entry1 @ ''    Category: '' @ py_str repr_other category @ ''\<newline>'';
          entry3 = entry2 @ ''    Summary: '' @ py_str repr_other summary @ ''\<newline>''
      in if py_truthy keywords then
           (case py_join_json '', '' keywords of
              Inl e \<Rightarrow> Inl e
            | Inr ks \<Rightarrow> Inr (entry3 @ ''    Keywords: '' @ ks @ ''\<newline>''))
         else Inr entry3)"

fun summary_lines ::
  "(json \<Rightarrow> string) \<Rightarrow> nat \<Rightarrow> (string, doc) dict \<Rightarrow> string list
     \<Rightarrow> py_error + string list" where
  "summary_lines repr_other i [] lines = Inr lines"
| "summary_lines repr_other i ((doc_id, d) # rest) lines =
     (case summary_entry repr_other i doc_id d of
        Inl e \<Rightarrow> Inl e
      | Inr entry \<Rightarrow> summary_lines repr_other (Suc i) rest (lines @ [entry]))"

definition get_summaries_for_selection ::
  "(json \<Rightarrow> string) \<Rightarrow> DocumentIndex \<Rightarrow> (py_error + string) \<times> DocumentIndex" where
  "get_summaries_for_selection repr_other self =
     (if summaries_cache self \<noteq> [] then (Inr (summaries_cache self), self)
      else (case summary_lines repr_other 1 (documents self) [] of
              Inl e \<Rightarrow> (Inl e, self)
            | Inr lines \<Rightarrow>
                (let s = py_join ''\<newline>'' lines
                 in (Inr s, self\<lparr>summaries_cache := s\<rparr>))))"

text \<open>\<^verbatim>\<open>get_documents_by_ids\<close>: the comprehension
  \<^verbatim>\<open>[self.documents[d_id] for d_id in doc_ids if d_id in self.documents]\<close>.\<close>

fun get_documents_by_ids :: "DocumentIndex \<Rightarrow> string list \<Rightarrow> py_error + doc list" where
  "get_documents_by_ids self [] = Inr []"
| "get_documents_by_ids self (d_id # doc_ids) =
     (if dict_contains (documents self) d_id then
        (case dict_getitem (documents self) d_id of
           Inl e \<Rightarrow> Inl e
         | Inr d \<Rightarrow>
             (case get_documents_by_ids self doc_ids of
                Inl e \<Rightarrow> Inl e
              | Inr ds \<Rightarrow> Inr (d # ds)))
      else get_documents_by_ids self doc_ids)"

section \<open>The hosted LLM API\<close>

text \<open>
  A request is what \<^verbatim>\<open>messages.create\<close> is called with.  The API answers with a
  response or raises; what it answers is not the bot's to decide, so it is the parameter
  \<open>api\<close> of the environment, a function of the number of requests sent before and of the
  request.  The response carries its content blocks and the two usage counters the
  selector reads with \<^verbatim>\<open>getattr(usage, name, 0)\<close>: such an attribute may be absent, hold
  \<^verbatim>\<open>None\<close>, or hold an integer.
\<close>

record turn =
  role :: string
  content :: string

record sys_block =
  block_text :: string
  cache_ephemeral :: bool

datatype system_arg = SystemBlocks "sys_block list" | SystemText string

record request =
  req_model :: string
  req_max_tokens :: nat
  req_system :: system_arg
  req_messages :: "turn list"

datatype content_block = TextBlock string | OtherBlock string

datatype usage_attr = Absent | NoneValue | IntValue int

record usage =
  cache_creation_input_tokens :: usage_attr
  cache_read_input_tokens :: usage_attr

record response =
  resp_content :: "content_block list"
  resp_usage :: usage

record env =
  api :: "nat \<Rightarrow> request \<Rightarrow> py_error + response"
  env_files :: filesystem
  repr_other :: "json \<Rightarrow> string"

text \<open>\<^verbatim>\<open>response.content[0].text\<close>.\<close>

definition content0_text :: "response \<Rightarrow> py_error + string" where
  "content0_text r =
     (case resp_content r of
        [] \<Rightarrow> Inl (Raised ''IndexError'' ''list index out of range'')
      | TextBlock t # bs \<Rightarrow> Inr t
      | OtherBlock cls # bs \<Rightarrow>
          Inl (Raised ''AttributeError''
                 ([CHR 0x27] @ cls @ [CHR 0x27] @ '' object has no attribute ''
                    @ [CHR 0x27] @ ''text'' @ [CHR 0x27])))"

text \<open>\<^verbatim>\<open>getattr(usage, name, 0)\<close>.\<close>

fun getattr0 :: "usage_attr \<Rightarrow> int option" where
  "getattr0 Absent = Some 0"
| "getattr0 NoneValue = None"
| "getattr0 (IntValue n) = Some n"

text \<open>\<^verbatim>\<open>if counter > 0: logger.info(...)\<close>: the comparison raises on \<^verbatim>\<open>None\<close>, otherwise
  the record is written when the counter is positive.\<close>

fun log_if_positive :: "(int \<Rightarrow> log_msg) \<Rightarrow> int option \<Rightarrow> py_error + log_entry list" where
  "log_if_positive msg None =
     Inl (Raised ''TypeError''
            ([CHR 0x27] @ ''>'' @ [CHR 0x27] @ '' not supported between instances of ''
               @ [CHR 0x27] @ ''NoneType'' @ [CHR 0x27] @ '' and ''
               @ [CHR 0x27] @ ''int'' @ [CHR 0x27]))"
| "log_if_positive msg (Some n) = Inr (if 0 < n then [(INFO, msg n)] else [])"

section \<open>The process state\<close>

text \<open>
  The module globals \<^verbatim>\<open>agent._index\<close> and \<^verbatim>\<open>app.conversations\<close>, together with what the
  process has done to the outside: the requests sent to the API, oldest first, and the
  log records written.
\<close>

record state =
  index :: DocumentIndex
  conversations :: "string \<rightharpoonup> turn list"
  api_calls :: "request list"
  log_records :: "log_entry list"

definition initial_state :: state where
  "initial_state =
     \<lparr>index = DocumentIndex_init, conversations = Map.empty, api_calls = [],
      log_records = []\<rparr>"

definition load_documents :: "env \<Rightarrow> string \<Rightarrow> state \<Rightarrow> state" where
  "load_documents ev directory st =
     (let (idx, lg) = load_from_directory (env_files ev) directory (index st, log_records st)
      in st\<lparr>index := idx, log_records := lg\<rparr>)"

section \<open>The relevance selector: select\_relevant\_docs\<close>

definition CLAUDE_MODEL :: string where
  "CLAUDE_MODEL = ''claude-haiku-4-5-20251001''"

definition selector_system_text :: "int \<Rightarrow> string \<Rightarrow> string" where
  \<open>selector_system_text max_docs summaries =
     ''You are a document retrieval assistant. Given a user query and a list of help center documents, identify which documents are most relevant to answering the query.\<newline>''
     @ ''\<newline>''
     @ ''Rules:\<newline>''
     @ ''- Return ONLY the document IDs that are relevant, one per line\<newline>''
     @ ''- Return at most '' @ str_int max_docs @ '' documents\<newline>''
     @ ''- If no documents are relevant, return "NONE"\<newline>''
     @ ''- Do not explain your choices, just list the IDs\<newline>''
     @ ''\<newline>''
     @ ''Example output:\<newline>''
     @ ''Cancelling_a_guest_reservation___Help_Center\<newline>''
     @ ''Cancellation_policies___Help_Center\<newline>''
     @ ''\<newline>''
     @ ''Available Documents:\<newline>''
     @ summaries\<close>

definition system_blocks :: "int \<Rightarrow> string \<Rightarrow> sys_block list" where
  "system_blocks max_docs summaries =
     [\<lparr>block_text = selector_system_text max_docs summaries, cache_ephemeral = False\<rparr>,
      \<lparr>block_text = ''Ready to select relevant documents.'', cache_ephemeral = True\<rparr>]"

definition user_prompt :: "string \<Rightarrow> string" where
  "user_prompt query = ''Which document IDs are most relevant to this query: '' @ query"

definition selector_request :: "string \<Rightarrow> int \<Rightarrow> string \<Rightarrow> request" where
  "selector_request query max_docs summaries =
     \<lparr>req_model = ''claude-haiku-4-5-20251001'', req_max_tokens = 256,
      req_system = SystemBlocks (system_blocks max_docs summaries),
      req_messages = [\<lparr>role = ''user'', content = user_prompt query\<rparr>]\<rparr>"

text \<open>The lines of the response: \<^verbatim>\<open>[line.strip() for line in
  response_text.split('\n') if line.strip()]\<close>, and those of them that are keys of the
  index.\<close>

definition response_doc_ids :: "string \<Rightarrow> string list" where
  "response_doc_ids response_text =
     map py_strip
       (filter (\<lambda>line. py_strip line \<noteq> []) (py_split CHR ''\<newline>'' response_text))"

definition valid_doc_ids :: "DocumentIndex \<Rightarrow> string list \<Rightarrow> string list" where
  "valid_doc_ids idx doc_ids = filter (\<lambda>d_id. dict_contains (documents idx) d_id) doc_ids"

text \<open>The body of the \<^verbatim>\<open>try\<close>, from the outcome of the API call on: the value it
  returns or the exception it raises, and the log records written on the way.\<close>

definition select_try ::
  "DocumentIndex \<Rightarrow> int \<Rightarrow> py_error + response
     \<Rightarrow> (py_error + string list) \<times> log_entry list" where
  "select_try idx max_docs outcome =
     (case outcome of
        Inl e \<Rightarrow> (Inl e, [])
      | Inr resp \<Rightarrow>
     (case content0_text resp of
        Inl e \<Rightarrow> (Inl e, [])
      | Inr t \<Rightarrow>
     (let response_text = py_strip t;
          lg1 = [(DEBUG, Haiku_response response_text)];
          cache_created = getattr0 (cache_creation_input_tokens (resp_usage resp));
          cache_read = getattr0 (cache_read_input_tokens (resp_usage resp))
      in
     (case log_if_positive Cache_created cache_created of
        Inl e \<Rightarrow> (Inl e, lg1)
      | Inr created \<Rightarrow>
     (let lg2 = lg1 @ created
      in
     (case log_if_positive Cache_hit cache_read of
        Inl e \<Rightarrow> (Inl e, lg2)
      | Inr hit \<Rightarrow>
     (let lg3 = lg2 @ hit
      in
      if py_upper response_text = ''NONE'' then
        (Inr [], lg3 @ [(INFO, No_relevant_documents)])
      else
        (let doc_ids = response_doc_ids response_text;
             valid_ids = valid_doc_ids idx doc_ids;
             lg4 = lg3 @ (if length valid_ids \<noteq> length doc_ids
                          then [(WARNING, IDs_not_found (set doc_ids - set valid_ids))]
                          else [])
         in (Inr (py_slice_to max_docs valid_ids),
             lg4 @ [(INFO, Selected_documents (length valid_ids)
                             (py_slice_to max_docs valid_ids))])))))))))"

definition select_relevant_docs ::
  "env \<Rightarrow> string \<Rightarrow> int \<Rightarrow> state \<Rightarrow> (py_error + string list) \<times> state" where
  "select_relevant_docs ev query max_docs st =
     (if \<not> loaded (index st) \<or> length (documents (index st)) = 0 then
        (Inr [], st\<lparr>log_records := log_records st @ [(WARNING, No_documents_loaded)]\<rparr>)
      else
        (case get_summaries_for_selection (repr_other ev) (index st) of
           (Inl e, idx) \<Rightarrow> (Inl e, st\<lparr>index := idx\<rparr>)
         | (Inr summaries, idx) \<Rightarrow>
             (let req = selector_request query max_docs summaries;
                  outcome = api ev (length (api_calls st)) req;
                  st1 = st\<lparr>index := idx,
                          api_calls := api_calls st @ [req],
                          log_records :=
                            log_records st @ [(INFO, Querying_Haiku (take 50 query))]\<rparr>
              in (case select_try idx max_docs outcome of
                    (Inr ids, lg) \<Rightarrow> (Inr ids, st1\<lparr>log_records := log_records st1 @ lg\<rparr>)
                  | (Inl e, lg) \<Rightarrow>
                      (Inr [],
                       st1\<lparr>log_records :=
                             log_records st1 @ lg @ [(ERROR, Error_calling_Haiku e)]\<rparr>)))))"

definition get_documents :: "state \<Rightarrow> string list \<Rightarrow> py_error + doc list" where
  "get_documents st doc_ids = get_documents_by_ids (index st) doc_ids"

definition retrieve_documents ::
  "env \<Rightarrow> string \<Rightarrow> int \<Rightarrow> state \<Rightarrow> (py_error + doc list) \<times> state" where
  "retrieve_documents ev query max_docs st =
     (case select_relevant_docs ev query max_docs st of
        (Inl e, st1) \<Rightarrow> (Inl e, st1)
      | (Inr doc_ids, st1) \<Rightarrow>
          (if doc_ids = [] then (Inr [], st1) else (get_documents st1 doc_ids, st1)))"

section \<open>The context assembler: format\_context\_for\_claude\<close>

definition context_block :: "(json \<Rightarrow> string) \<Rightarrow> nat \<Rightarrow> doc \<Rightarrow> string" where
  "context_block ro i d =
     (let title = dict_get d ''title'' (JStr ''Untitled'');
          article = dict_get d ''article'' (JStr []);
          category = dict_get d ''category'' (JStr [])
      in ''--- Document '' @ str_nat i @ '': '' @ py_str ro title @ '' ---\<newline>''
         @ ''Category: '' @ py_str ro category @ ''\<newline>''
         @ ''Content:\<newline>'' @ py_str ro article @ ''\<newline>'')"

fun context_parts ::
  "(json \<Rightarrow> string) \<Rightarrow> nat \<Rightarrow> doc list \<Rightarrow> string list \<Rightarrow> string list" where
  "context_parts ro i [] parts = parts"
| "context_parts ro i (d # ds) parts =
     context_parts ro (Suc i) ds (parts @ [context_block ro i d])"

definition format_context_for_claude :: "(json \<Rightarrow> string) \<Rightarrow> doc list \<Rightarrow> string" where
  "format_context_for_claude ro docs =
     (if docs = [] then []
      else py_join ''\<newline>\<newline>'' (context_parts ro 1 docs []))"

section \<open>The response generator: ask\_claude\<close>

text \<open>\<^verbatim>\<open>conversations[user_id]\<close> on the dict of sessions, whose order is never
  observed: a map.\<close>

definition dict_getitem_map :: "(string \<rightharpoonup> 'v) \<Rightarrow> string \<Rightarrow> py_error + 'v" where
  "dict_getitem_map m k =
     (case m k of
        None \<Rightarrow> Inl (Raised ''KeyError'' ([CHR 0x27] @ k @ [CHR 0x27]))
      | Some v \<Rightarrow> Inr v)"

definition SYSTEM_PROMPT :: string where
  "SYSTEM_PROMPT =
     ''You an expert AI assistant in a Slack workspace.\<newline>''
     @ ''\<newline>''
     @ ''Instructions:\<newline>''
     @ ''- Focus on answering the user's most recent message\<newline>''
     @ ''- Use prior messages in the conversation as context\<newline>''
     @ ''- Be helpful but concise\<newline>''
     @ ''- If the user's question is unclear, ask for clarification\<newline>''"

definition SYSTEM_PROMPT_WITH_CONTEXT :: "string \<Rightarrow> string" where
  "SYSTEM_PROMPT_WITH_CONTEXT ctxt =
     ''You an expert AI assistant in a Slack workspace.\<newline>''
     @ ''\<newline>''
     @ ''Instructions:\<newline>''
     @ ''- Focus on answering the user's most recent message\<newline>''
     @ ''- Use prior messages in the conversation as context\<newline>''
     @ ''- Be helpful but concise\<newline>''
     @ ''- If the user's question is unclear, ask for clarification\<newline>''
     @ ''\<newline>''
     @ ''You have access to the following help center documentation:\<newline>''
     @ ''\<newline>''
     @ ctxt @ ''\<newline>''
     @ ''\<newline>''
     @ ''Use this documentation to provide accurate answers. If you used the documentation, cite the title of the articles.\<newline>''
     @ ''If the documentation doesn't cover the question, ignore it\<newline>''"

definition generation_request :: "string \<Rightarrow> turn list \<Rightarrow> request" where
  "generation_request system_prompt messages =
     \<lparr>req_model = CLAUDE_MODEL, req_max_tokens = 2048,
      req_system = SystemText system_prompt, req_messages = messages\<rparr>"

text \<open>
  \<^verbatim>\<open>ask_claude\<close> returns the text for the chat platform, or raises when the retrieval
  before its \<^verbatim>\<open>try\<close> raises.  \<open>ensure_session\<close> is its first statement
  (\<^verbatim>\<open>if user_id not in conversations: conversations[user_id] = []\<close>),
  \<open>build_system_prompt\<close> the choice between the two templates.  The \<^verbatim>\<open>try\<close> holds the
  API call and the reading of the reply.
\<close>

definition ensure_session :: "string \<Rightarrow> state \<Rightarrow> state" where
  "ensure_session user_id st =
     (if conversations st user_id = None
      then st\<lparr>conversations := (conversations st)(user_id \<mapsto> [])\<rparr>
      else st)"

definition build_system_prompt :: "(json \<Rightarrow> string) \<Rightarrow> doc list \<Rightarrow> string" where
  "build_system_prompt ro docs =
     (if docs \<noteq> [] then SYSTEM_PROMPT_WITH_CONTEXT (format_context_for_claude ro docs)
      else SYSTEM_PROMPT)"

definition generation_reply :: "py_error + response \<Rightarrow> py_error + string" where
  "generation_reply outcome =
     (case outcome of Inl e \<Rightarrow> Inl e | Inr resp \<Rightarrow> content0_text resp)"

definition ask_claude ::
  "env \<Rightarrow> string \<Rightarrow> string \<Rightarrow> state \<Rightarrow> (py_error + string) \<times> state" where
  "ask_claude ev user_id message st =
     (case retrieve_documents ev message 3 (ensure_session user_id st) of
        (Inl e, st1) \<Rightarrow> (Inl e, st1)
      | (Inr docs, st1) \<Rightarrow>
     (let system_prompt = build_system_prompt (repr_other ev) docs;
          st2 = (if docs \<noteq> [] then
                   st1\<lparr>log_records :=
                         log_records st1 @ [(INFO, Added_documents (length docs))]\<rparr>
                 else st1)
      in
     (case dict_getitem_map (conversations st2) user_id of
        Inl e \<Rightarrow> (Inl e, st2)
      | Inr history \<Rightarrow>
     (let appended = history @ [\<lparr>role = ''user'', content = message\<rparr>];
          kept = py_slice_last 10 appended;
          st3 = st2\<lparr>conversations := (conversations st2)(user_id \<mapsto> kept)\<rparr>;
          req = generation_request system_prompt kept;
          outcome = api ev (length (api_calls st3)) req;
          st4 = st3\<lparr>api_calls := api_calls st3 @ [req]\<rparr>
      in
     (case generation_reply outcome of
        Inr reply \<Rightarrow>
          (Inr reply,
           st4\<lparr>conversations :=
                 (conversations st4)
                   (user_id \<mapsto> kept @ [\<lparr>role = ''assistant'', content = reply\<rparr>])\<rparr>)
      | Inl e \<Rightarrow>
          (Inr (''API error: '' @ exc_str e),
           st4\<lparr>log_records := log_records st4 @ [(ERROR, Claude_API_error e)]\<rparr>))))))"

text \<open>The handler of \<^verbatim>\<open>/claude-reset\<close>.\<close>

definition reset_command :: "string \<Rightarrow> state \<Rightarrow> state" where
  "reset_command user_id st = st\<lparr>conversations := (conversations st)(user_id \<mapsto> [])\<rparr>"

section \<open>Notions used to state the properties\<close>

text \<open>
  \<open>parsed_files\<close> lists, in the order of the files, the stem and the document of each
  file that \<^verbatim>\<open>load_from_directory\<close> stores.  An \<open>operation\<close> is a call the bot
  makes between two loads; \<open>perform_all\<close> runs a list of them and \<open>listing\<close> is what the
  summaries listing returns in a state.  \<open>reply_lines\<close> and \<open>parse_selection_spec\<close> follow the words of the
  specification's parsing policy.  \<open>session_of\<close> is a user's session, empty when the user
  has none.
\<close>

definition parsed_files :: "json_file list \<Rightarrow> (string \<times> doc) list" where
  "parsed_files fls =
     concat (map (\<lambda>f. case load_file f of Inl e \<Rightarrow> [] | Inr d \<Rightarrow> [(file_stem f, d)]) fls)"

datatype operation =
    Summaries
  | Select string int
  | Lookup "string list"
  | Ask string string
  | Reset string

fun perform :: "env \<Rightarrow> operation \<Rightarrow> state \<Rightarrow> state" where
  "perform ev Summaries st =
     st\<lparr>index := snd (get_summaries_for_selection (repr_other ev) (index st))\<rparr>"
| "perform ev (Select query max_docs) st = snd (select_relevant_docs ev query max_docs st)"
| "perform ev (Lookup doc_ids) st = st"
| "perform ev (Ask user_id message) st = snd (ask_claude ev user_id message st)"
| "perform ev (Reset user_id) st = reset_command user_id st"

fun perform_all :: "env \<Rightarrow> operation list \<Rightarrow> state \<Rightarrow> state" where
  "perform_all ev [] st = st"
| "perform_all ev (x # xs) st = perform_all ev xs (perform ev x st)"

definition listing :: "env \<Rightarrow> state \<Rightarrow> py_error + string" where
  "listing ev st = fst (get_summaries_for_selection (repr_other ev) (index st))"

definition reply_lines :: "string \<Rightarrow> string list" where
  "reply_lines response =
     filter (\<lambda>line. line \<noteq> [])
       (map py_strip (py_split CHR ''\<newline>'' (py_strip response)))"


definition session_of :: "state \<Rightarrow> string \<Rightarrow> turn list" where
  "session_of st user_id = (case conversations st user_id of None \<Rightarrow> [] | Some h \<Rightarrow> h)"


text \<open>A user's messages sent one after the other.\<close>

fun ask_all :: "env \<Rightarrow> string \<Rightarrow> string list \<Rightarrow> state \<Rightarrow> state" where
  "ask_all ev user_id [] st = st"
| "ask_all ev user_id (m # ms) st = ask_all ev user_id ms (snd (ask_claude ev user_id m st))"

section \<open>Example inputs\<close>

definition example_repr :: "json \<Rightarrow> string" where
  "example_repr v = ''?''"

definition cancel_json :: json where
  "cancel_json =
     JObj [(''title'', JStr ''Cancelling a guest reservation''),
           (''category'', JStr ''Reservations''),
           (''article'', JStr ''Open the booking and choose Cancel.''),
           (''claude_summary'', JStr ''How to cancel a booking''),
           (''keywords'', JArr [JStr ''cancel'', JStr ''guest''])]"

definition payout_json :: json where
  "payout_json =
     JObj [(''title'', JStr ''Adding a payout method''),
           (''short_description'', JStr ''Payout setup''),
           (''article'', JStr ''Go to Payouts.''),
           (''category'', JStr ''Payments'')]"

definition refund_json :: json where
  "refund_json = JObj [(''article'', JStr ''Refunds take five days.'')]"

definition payout_json_v2 :: json where
  "payout_json_v2 = JObj [(''title'', JStr ''Payout methods''), (''article'', JStr ''Updated.'')]"

definition doc_info_files :: "json_file list" where
  "doc_info_files =
     [\<lparr>file_stem = ''cancel'', file_path = ''doc_info/cancel.json'',
       file_json = Inr cancel_json\<rparr>,
      \<lparr>file_stem = ''broken'', file_path = ''doc_info/broken.json'',
       file_json = Inl (Raised ''JSONDecodeError'' ''Expecting value: line 1 column 1 (char 0)'')\<rparr>,
      \<lparr>file_stem = ''payout'', file_path = ''doc_info/payout.json'',
       file_json = Inr payout_json\<rparr>,
      \<lparr>file_stem = ''refund'', file_path = ''doc_info/refund.json'',
       file_json = Inr refund_json\<rparr>]"

definition more_files :: "json_file list" where
  "more_files =
     [\<lparr>file_stem = ''payout'', file_path = ''more/payout.json'',
       file_json = Inr payout_json_v2\<rparr>,
      \<lparr>file_stem = ''notes'', file_path = ''more/notes.json'',
       file_json = Inr (JArr [JStr ''not a document''])\<rparr>]"

definition example_fs :: filesystem where
  "example_fs directory =
     (if directory = ''doc_info'' then Some doc_info_files
      else if directory = ''more'' then Some more_files
      else None)"

definition cancel_doc :: doc where
  "cancel_doc =
     [(''title'', JStr ''Cancelling a guest reservation''),
      (''category'', JStr ''Reservations''),
      (''article'', JStr ''Open the booking and choose Cancel.''),
      (''claude_summary'', JStr ''How to cancel a booking''),
      (''keywords'', JArr [JStr ''cancel'', JStr ''guest'']),
      (''id'', JStr ''cancel''),
      (''filepath'', JStr ''doc_info/cancel.json'')]"

definition payout_doc :: doc where
  "payout_doc =
     [(''title'', JStr ''Adding a payout method''),
      (''short_description'', JStr ''Payout setup''),
      (''article'', JStr ''Go to Payouts.''),
      (''category'', JStr ''Payments''),
      (''id'', JStr ''payout''),
      (''filepath'', JStr ''doc_info/payout.json'')]"

definition refund_doc :: doc where
  "refund_doc =
     [(''article'', JStr ''Refunds take five days.''),
      (''id'', JStr ''refund''),
      (''filepath'', JStr ''doc_info/refund.json'')]"

definition payout_doc_v2 :: doc where
  "payout_doc_v2 =
     [(''title'', JStr ''Payout methods''),
      (''article'', JStr ''Updated.''),
      (''id'', JStr ''payout''),
      (''filepath'', JStr ''more/payout.json'')]"

definition example_index :: DocumentIndex where
  "example_index =
     \<lparr>documents = [(''cancel'', cancel_doc), (''payout'', payout_doc), (''refund'', refund_doc)],
      loaded = True, summaries_cache = []\<rparr>"

definition example_listing :: string where
  "example_listing =
     ''[1] cancel\<newline>''
     @ ''    Title: Cancelling a guest reservation\<newline>''
     @ ''    Category: Reservations\<newline>''
     @ ''    Summary: How to cancel a booking\<newline>''
     @ ''    Keywords: cancel, guest\<newline>''
     @ ''\<newline>''
     @ ''[2] payout\<newline>''
     @ ''    Title: Adding a payout method\<newline>''
     @ ''    Category: Payments\<newline>''
     @ ''    Summary: Payout setup\<newline>''
     @ ''\<newline>''
     @ ''[3] refund\<newline>''
     @ ''    Title: Untitled\<newline>''
     @ ''    Category: \<newline>''
     @ ''    Summary: \<newline>''"

definition text_usage :: usage where
  "text_usage =
     \<lparr>cache_creation_input_tokens = IntValue 0, cache_read_input_tokens = IntValue 1200\<rparr>"

definition reply_api :: "string \<Rightarrow> nat \<Rightarrow> request \<Rightarrow> py_error + response" where
  "reply_api t n req = Inr \<lparr>resp_content = [TextBlock t], resp_usage = text_usage\<rparr>"

definition failing_api :: "nat \<Rightarrow> request \<Rightarrow> py_error + response" where
  "failing_api n req = Inl (Raised ''APIConnectionError'' ''Connection error.'')"

definition example_env :: "(nat \<Rightarrow> request \<Rightarrow> py_error + response) \<Rightarrow> env" where
  "example_env a = \<lparr>api = a, env_files = example_fs, repr_other = example_repr\<rparr>"

definition example_state :: state where
  "example_state = initial_state\<lparr>index := example_index\<rparr>"

definition two_turns :: "turn list" where
  "two_turns =
     [\<lparr>role = ''user'', content = ''hello''\<rparr>, \<lparr>role = ''assistant'', content = ''hi there''\<rparr>]"

definition talking_state :: state where
  "talking_state = initial_state\<lparr>conversations := [''U1'' \<mapsto> two_turns]\<rparr>"

text \<open>The index after the start-up load of \<^verbatim>\<open>doc_info\<close> and one call of the
  summaries listing.\<close>

definition cached_index :: DocumentIndex where
  "cached_index =
     snd (get_summaries_for_selection example_repr
            (fst (load_from_directory example_fs ''doc_info'' (DocumentIndex_init, []))))"

text \<open>A response whose first usage counter holds \<^verbatim>\<open>None\<close>.\<close>

definition none_usage :: usage where
  "none_usage =
     \<lparr>cache_creation_input_tokens = NoneValue, cache_read_input_tokens = IntValue 0\<rparr>"

definition none_usage_api :: "string \<Rightarrow> nat \<Rightarrow> request \<Rightarrow> py_error + response" where
  "none_usage_api t n req = Inr \<lparr>resp_content = [TextBlock t], resp_usage = none_usage\<rparr>"

text \<open>A file system whose \<^verbatim>\<open>doc_info\<close> directory exists and holds no file, and the index
  after the start-up load from it.\<close>

definition empty_dir_fs :: filesystem where
  "empty_dir_fs directory = (if directory = ''doc_info'' then Some [] else None)"

definition empty_index :: DocumentIndex where
  "empty_index = fst (load_from_directory empty_dir_fs ''doc_info'' (DocumentIndex_init, []))"

section \<open>Properties of the document store\<close>

declare str_nat.simps [simp del]

lemma dict_contains_iff: "dict_contains d k \<longleftrightarrow> map_of d k \<noteq> None"
  by (simp add: dict_contains_def map_of_eq_None_iff)

text \<open>
  Claim C8.  For every list of requested ids, the lookup returns exactly the documents
  whose id is a key of the index, in the order in which the ids were requested; an id
  that is not in the index is left out, and the comprehension never raises.
\<close>
theorem get_documents_by_ids_lookup:
  "get_documents_by_ids self doc_ids =
     Inr (List.map_filter (map_of (documents self)) doc_ids)"
proof (induction doc_ids)
  case Nil
  show ?case by simp
next
  case (Cons d_id doc_ids)
  show ?case
  proof (cases "map_of (documents self) d_id")
    case None
    then show ?thesis
      using Cons.IH by (simp add: dict_contains_iff)
  next
    case (Some d)
    then show ?thesis
      using Cons.IH by (simp add: dict_contains_iff dict_getitem_def)
  qed
qed

lemma load_files_map_of:
  "map_of (fst (load_files fls (docs, lg))) = map_of docs ++ map_of (rev (parsed_files fls))"
proof (induction fls arbitrary: docs lg)
  case Nil
  show ?case by (simp add: parsed_files_def)
next
  case (Cons f fls)
  show ?case
  proof (cases "load_file f")
    case (Inl e)
    then show ?thesis using Cons.IH by (simp add: parsed_files_def)
  next
    case (Inr d)
    then show ?thesis using Cons.IH
      by (simp add: parsed_files_def dict_setitem_def AList.update_conv' map_add_def fun_eq_iff split: option.splits)
  qed
qed

lemma load_existing_documents:
  assumes "fs directory = Some fls"
  shows "documents (fst (load_from_directory fs directory (self, lg))) =
           fst (load_files fls (documents self, lg))"
  using assms by (simp add: load_from_directory_def split: prod.splits)

text \<open>
  Claim C10.  Loading an existing directory never clears the index: the documents after
  the call are those before it, overridden by the files parsed in this call (the last
  file of a stem wins).  So a document that was present is still present and unchanged
  unless a parsed file has its stem, and then the document of such a file has taken its
  place.
\<close>
theorem load_from_directory_merges:
  assumes "fs directory = Some fls"
  shows "map_of (documents (fst (load_from_directory fs directory (self, lg)))) =
           map_of (documents self) ++ map_of (rev (parsed_files fls))
       \<and> (\<forall>k d. map_of (documents self) k = Some d \<longrightarrow>
            (k \<notin> fst ` set (parsed_files fls) \<longrightarrow>
               map_of (documents (fst (load_from_directory fs directory (self, lg)))) k = Some d)
          \<and> (k \<in> fst ` set (parsed_files fls) \<longrightarrow>
               (\<exists>d'. map_of (documents (fst (load_from_directory fs directory (self, lg)))) k
                       = Some d'
                    \<and> (k, d') \<in> set (parsed_files fls))))"
proof -
  let ?new = "map_of (documents (fst (load_from_directory fs directory (self, lg))))"
  have eq: "?new = map_of (documents self) ++ map_of (rev (parsed_files fls))"
    using assms by (simp add: load_existing_documents load_files_map_of)
  have keep: "?new k = Some d"
    if "map_of (documents self) k = Some d" "k \<notin> fst ` set (parsed_files fls)" for k d
  proof -
    from that(2) have "map_of (rev (parsed_files fls)) k = None"
      by (simp add: map_of_eq_None_iff)
    with that(1) show ?thesis by (simp add: eq map_add_def)
  qed
  have repl: "\<exists>d'. ?new k = Some d' \<and> (k, d') \<in> set (parsed_files fls)"
    if "k \<in> fst ` set (parsed_files fls)" for k
  proof -
    from that have "map_of (rev (parsed_files fls)) k \<noteq> None"
      by (simp add: map_of_eq_None_iff)
    then obtain d' where d': "map_of (rev (parsed_files fls)) k = Some d'" by blast
    then have "(k, d') \<in> set (parsed_files fls)"
      using map_of_SomeD by fastforce
    with d' show ?thesis by (auto simp: eq map_add_def)
  qed
  from eq keep repl show ?thesis by blast
qed

text \<open>
  Claim C3, as amended.  For a directory that does not exist the load is a no-op: the
  documents, the loaded flag and the cached listing are all what they were before, and
  one warning is logged.  On a fresh index this leaves the store empty, the flag false
  and the cache empty.
\<close>
theorem load_from_directory_missing:
  assumes "fs directory = None"
  shows "load_from_directory fs directory (self, lg) =
           (self, lg @ [(WARNING, Directory_not_found directory)])
       \<and> fst (load_from_directory fs directory (DocumentIndex_init, lg)) =
           \<lparr>documents = [], loaded = False, summaries_cache = []\<rparr>"
  using assms by (simp add: load_from_directory_def DocumentIndex_init_def)

lemma get_summaries_again:
  "get_summaries_for_selection ro (snd (get_summaries_for_selection ro self)) =
     (fst (get_summaries_for_selection ro self), snd (get_summaries_for_selection ro self))"
proof (cases "summaries_cache self = []")
  case False
  then show ?thesis by (simp add: get_summaries_for_selection_def)
next
  case True
  show ?thesis
  proof (cases "summary_lines ro 1 (documents self) []")
    case (Inl e)
    with True show ?thesis by (simp add: get_summaries_for_selection_def)
  next
    case (Inr lines)
    with True show ?thesis
      by (simp add: get_summaries_for_selection_def Let_def)
  qed
qed

lemma select_index:
  "index (snd (select_relevant_docs ev query max_docs st)) = index st
   \<or> index (snd (select_relevant_docs ev query max_docs st)) =
       snd (get_summaries_for_selection (repr_other ev) (index st))"
  by (cases "get_summaries_for_selection (repr_other ev) (index st)")
     (auto simp: select_relevant_docs_def Let_def split: prod.splits sum.splits)

lemma retrieve_index:
  "index (snd (retrieve_documents ev query max_docs st)) =
     index (snd (select_relevant_docs ev query max_docs st))"
  by (cases "select_relevant_docs ev query max_docs st")
     (simp add: retrieve_documents_def split: sum.splits)

lemma ask_claude_index:
  "index (snd (ask_claude ev user_id message st)) =
     index (snd (retrieve_documents ev message 3 (ensure_session user_id st)))"
  by (cases "retrieve_documents ev message 3 (ensure_session user_id st)")
     (simp add: ask_claude_def Let_def split: sum.splits)

lemma listing_step:
  assumes "idx = self \<or> idx = snd (get_summaries_for_selection ro self)"
  shows "fst (get_summaries_for_selection ro idx) = fst (get_summaries_for_selection ro self)"
  using assms by (auto simp: get_summaries_again)

lemma perform_listing: "listing ev (perform ev x st) = listing ev st"
proof (cases x)
  case Summaries
  then show ?thesis by (simp add: listing_def get_summaries_again)
next
  case (Select query max_docs)
  then show ?thesis
    using select_index [of ev query max_docs st] by (simp add: listing_def listing_step)
next
  case (Lookup doc_ids)
  then show ?thesis by simp
next
  case (Ask user_id message)
  have "index (ensure_session user_id st) = index st"
    by (simp add: ensure_session_def)
  then show ?thesis
    using Ask select_index [of ev message 3 "ensure_session user_id st"]
    by (simp add: listing_def ask_claude_index retrieve_index listing_step)
next
  case (Reset user_id)
  then show ?thesis by (simp add: listing_def reset_command_def)
qed

lemma get_summaries_cached:
  assumes "summaries_cache self \<noteq> []"
  shows "get_summaries_for_selection ro self = (Inr (summaries_cache self), self)"
  using assms by (simp add: get_summaries_for_selection_def)

lemma get_summaries_stores:
  assumes "fst (get_summaries_for_selection ro self) = Inr s" "s \<noteq> []"
  shows "summaries_cache (snd (get_summaries_for_selection ro self)) = s"
  using assms
  by (auto simp: get_summaries_for_selection_def Let_def split: if_splits sum.splits)

lemma get_summaries_empty:
  assumes "summaries_cache self = []" "documents self = []"
  shows "get_summaries_for_selection ro self = (Inr [], self)"
  using assms by (simp add: get_summaries_for_selection_def)

lemma perform_cached:
  assumes "summaries_cache (index st) \<noteq> []"
  shows "index (perform ev x st) = index st"
proof (cases x)
  case Summaries
  then show ?thesis by (simp add: get_summaries_cached [OF assms])
next
  case (Select query max_docs)
  then show ?thesis
    using select_index [of ev query max_docs st] by (auto simp: get_summaries_cached [OF assms])
next
  case (Lookup doc_ids)
  then show ?thesis by simp
next
  case (Ask user_id message)
  have i: "index (ensure_session user_id st) = index st"
    by (simp add: ensure_session_def)
  show ?thesis
    using Ask select_index [of ev message 3 "ensure_session user_id st"] assms
    by (auto simp: ask_claude_index retrieve_index i get_summaries_cached)
next
  case (Reset user_id)
  then show ?thesis by (simp add: reset_command_def)
qed

lemma perform_all_cached:
  assumes "summaries_cache (index st) \<noteq> []"
  shows "index (perform_all ev xs st) = index st"
  using assms
proof (induction xs arbitrary: st)
  case Nil
  show ?case by simp
next
  case (Cons x xs)
  have same: "index (perform ev x st) = index st"
    using Cons.prems by (rule perform_cached)
  with Cons.prems have "summaries_cache (index (perform ev x st)) \<noteq> []" by simp
  then have "index (perform_all ev xs (perform ev x st)) = index (perform ev x st)"
    by (rule Cons.IH)
  with same show ?case by simp
qed

lemma perform_all_listing:
  "listing ev (perform_all ev xs st) = listing ev st"
proof (induction xs arbitrary: st)
  case Nil
  show ?case by simp
next
  case (Cons x xs)
  have "listing ev (perform_all ev xs (perform ev x st)) = listing ev (perform ev x st)"
    by (rule Cons.IH)
  then show ?case by (simp add: perform_listing)
qed

text \<open>
  Claim C7, as amended.  Without a load in between, every call of the summaries listing
  returns what the first call returned, whatever the bot does between the two calls:
  further listings, selections, lookups, questions to \<^verbatim>\<open>ask_claude\<close> and resets leave the
  result of the listing as it was.  A listing that is not empty is computed once and
  memoized: the call that computes it stores it in the cache, and while the cache is not
  empty no operation changes the index and the listing is the cache, whatever the
  documents are.  The empty listing of an index without documents is not memoized: the
  call returns it and leaves the cache empty.
\<close>
theorem summaries_listing_stable:
  "fst (get_summaries_for_selection (repr_other ev) (index (perform_all ev xs st))) =
     fst (get_summaries_for_selection (repr_other ev) (index st))
   \<and> (\<forall>s. fst (get_summaries_for_selection (repr_other ev) (index st)) = Inr s \<and> s \<noteq> [] \<longrightarrow>
         summaries_cache (snd (get_summaries_for_selection (repr_other ev) (index st))) = s)
   \<and> (summaries_cache (index st) \<noteq> [] \<longrightarrow>
         index (perform_all ev xs st) = index st
       \<and> (\<forall>docs. get_summaries_for_selection (repr_other ev) ((index st)\<lparr>documents := docs\<rparr>) =
                   (Inr (summaries_cache (index st)), (index st)\<lparr>documents := docs\<rparr>)))
   \<and> (summaries_cache (index st) = [] \<and> documents (index st) = [] \<longrightarrow>
         get_summaries_for_selection (repr_other ev) (index st) = (Inr [], index st))"
proof -
  have stable:
    "fst (get_summaries_for_selection (repr_other ev) (index (perform_all ev xs st))) =
       fst (get_summaries_for_selection (repr_other ev) (index st))"
    using perform_all_listing [of ev xs st] by (simp add: listing_def)
  have stored:
    "summaries_cache (snd (get_summaries_for_selection (repr_other ev) (index st))) = s"
    if "fst (get_summaries_for_selection (repr_other ev) (index st)) = Inr s" "s \<noteq> []" for s
    using that by (rule get_summaries_stores)
  have cached:
    "get_summaries_for_selection (repr_other ev) ((index st)\<lparr>documents := docs\<rparr>) =
       (Inr (summaries_cache (index st)), (index st)\<lparr>documents := docs\<rparr>)"
    if "summaries_cache (index st) \<noteq> []" for docs
    using that get_summaries_cached [of "(index st)\<lparr>documents := docs\<rparr>" "repr_other ev"]
    by simp
  have empty:
    "get_summaries_for_selection (repr_other ev) (index st) = (Inr [], index st)"
    if "summaries_cache (index st) = []" "documents (index st) = []"
    using that by (rule get_summaries_empty)
  from stable stored perform_all_cached [of st ev xs] cached empty
  show ?thesis by blast
qed

section \<open>Properties of the relevance selector\<close>



lemma get_summaries_documents:
  "documents (snd (get_summaries_for_selection ro self)) = documents self"
  by (simp add: get_summaries_for_selection_def Let_def split: sum.splits)

lemma response_doc_ids_reply_lines: "response_doc_ids (py_strip t) = reply_lines t"
  by (simp add: response_doc_ids_def reply_lines_def filter_map comp_def)

lemma valid_doc_ids_known:
  "valid_doc_ids idx doc_ids = filter (\<lambda>line. line \<in> fst ` set (documents idx)) doc_ids"
  by (simp add: valid_doc_ids_def dict_contains_def)


lemma usage_counters_int:
  assumes "cache_creation_input_tokens u \<noteq> NoneValue" "cache_read_input_tokens u \<noteq> NoneValue"
  obtains a b where "getattr0 (cache_creation_input_tokens u) = Some a"
    and "getattr0 (cache_read_input_tokens u) = Some b"
proof -
  obtain a where a: "getattr0 (cache_creation_input_tokens u) = Some a"
    using assms(1) by (cases "cache_creation_input_tokens u") auto
  obtain b where b: "getattr0 (cache_read_input_tokens u) = Some b"
    using assms(2) by (cases "cache_read_input_tokens u") auto
  from a b that show thesis by blast
qed

lemma select_try_readable:
  assumes "content0_text resp = Inr t"
    and "cache_creation_input_tokens (resp_usage resp) \<noteq> NoneValue"
    and "cache_read_input_tokens (resp_usage resp) \<noteq> NoneValue"
  shows "fst (select_try idx max_docs (Inr resp)) =
           Inr (if py_upper (py_strip t) = ''NONE'' then []
                else py_slice_to max_docs (valid_doc_ids idx (reply_lines t)))"
proof -
  from assms(2,3) obtain a b where
    "getattr0 (cache_creation_input_tokens (resp_usage resp)) = Some a"
    "getattr0 (cache_read_input_tokens (resp_usage resp)) = Some b"
    by (rule usage_counters_int)
  then show ?thesis
    by (simp add: select_try_def assms(1) Let_def response_doc_ids_reply_lines)
qed


lemma py_slice_to_length: "0 \<le> n \<Longrightarrow> int (length (py_slice_to n xs)) \<le> n"
  by (simp add: py_slice_to_def)

lemma set_py_slice_to: "set (py_slice_to n xs) \<subseteq> set xs"
  by (auto simp: py_slice_to_def dest: in_set_takeD)

lemma select_try_bound:
  assumes "0 \<le> max_docs" "fst (select_try idx max_docs outcome) = Inr ids"
  shows "int (length ids) \<le> max_docs"
  using assms
  by (auto simp: select_try_def Let_def py_slice_to_length split: sum.splits if_splits)

lemma select_try_known:
  assumes "fst (select_try idx max_docs outcome) = Inr ids"
  shows "set ids \<subseteq> fst ` set (documents idx)"
proof -
  have "set (py_slice_to max_docs (valid_doc_ids idx xs)) \<subseteq> fst ` set (documents idx)" for xs
    using set_py_slice_to [of max_docs "valid_doc_ids idx xs"]
    by (auto simp: valid_doc_ids_known)
  with assms show ?thesis
    by (auto simp: select_try_def Let_def split: sum.splits if_splits)
qed

lemma select_result:
  "fst (select_relevant_docs ev query max_docs st) =
     (if \<not> loaded (index st) \<or> documents (index st) = [] then Inr []
      else (case fst (get_summaries_for_selection (repr_other ev) (index st)) of
              Inl e \<Rightarrow> Inl e
            | Inr summaries \<Rightarrow>
                (case fst (select_try (snd (get_summaries_for_selection (repr_other ev) (index st)))
                             max_docs
                             (api ev (length (api_calls st))
                                (selector_request query max_docs summaries))) of
                   Inl e \<Rightarrow> Inr []
                 | Inr ids \<Rightarrow> Inr ids)))"
  by (simp add: select_relevant_docs_def Let_def split: prod.splits sum.splits)


text \<open>
  Claim C6.  When the index is not loaded or holds no document, the selector returns the
  empty list, sends no request to the API (the list of requests sent is unchanged, and
  the result does not depend on the environment), and only logs a warning.
\<close>
theorem select_fails_fast:
  assumes "\<not> loaded (index st) \<or> documents (index st) = []"
  shows "select_relevant_docs ev query max_docs st =
           (Inr [], st\<lparr>log_records := log_records st @ [(WARNING, No_documents_loaded)]\<rparr>)
       \<and> api_calls (snd (select_relevant_docs ev query max_docs st)) = api_calls st"
  using assms by (auto simp: select_relevant_docs_def)


text \<open>
  Claim C4, as amended.  For every \<open>max_docs \<ge> 0\<close> the selector returns at most
  \<open>max_docs\<close> identifiers, all of them keys of the index, whatever the API answers; and
  when it reads a reply other than \<^verbatim>\<open>NONE\<close> without an exception (the index is loaded
  and not empty, the listing is built, the API answers, the first content block is a text
  block and neither usage counter is \<^verbatim>\<open>None\<close>), the result is the first \<open>max_docs\<close> of
  the lines that are keys of the index: the cut is applied to the filtered list.
\<close>
theorem select_truncates_after_filtering:
  assumes "0 \<le> max_docs"
  shows "(\<forall>ids. fst (select_relevant_docs ev query max_docs st) = Inr ids \<longrightarrow>
            int (length ids) \<le> max_docs \<and> set ids \<subseteq> fst ` set (documents (index st)))
       \<and> (\<forall>summaries resp response.
            loaded (index st) \<and> documents (index st) \<noteq> []
              \<and> fst (get_summaries_for_selection (repr_other ev) (index st)) = Inr summaries
              \<and> api ev (length (api_calls st)) (selector_request query max_docs summaries)
                  = Inr resp
              \<and> content0_text resp = Inr response
              \<and> cache_creation_input_tokens (resp_usage resp) \<noteq> NoneValue
              \<and> cache_read_input_tokens (resp_usage resp) \<noteq> NoneValue
              \<and> py_upper (py_strip response) \<noteq> ''NONE'' \<longrightarrow>
            fst (select_relevant_docs ev query max_docs st) =
              Inr (take (nat max_docs)
                     (filter (\<lambda>d_id. dict_contains (documents (index st)) d_id)
                        (response_doc_ids (py_strip response)))))"
proof -
  let ?idx = "snd (get_summaries_for_selection (repr_other ev) (index st))"
  have docs: "documents ?idx = documents (index st)"
    by (rule get_summaries_documents)
  have 1: "int (length ids) \<le> max_docs \<and> set ids \<subseteq> fst ` set (documents (index st))"
    if "fst (select_relevant_docs ev query max_docs st) = Inr ids" for ids
  proof (cases "ids = []")
    case True
    with assms show ?thesis by simp
  next
    case False
    with that obtain summaries where
      "fst (select_try ?idx max_docs
              (api ev (length (api_calls st)) (selector_request query max_docs summaries)))
         = Inr ids"
      by (auto simp: select_result split: if_splits sum.splits)
    then show ?thesis
      using select_try_bound [OF assms] select_try_known docs by metis
  qed
  have 2: "fst (select_relevant_docs ev query max_docs st) =
              Inr (take (nat max_docs)
                     (filter (\<lambda>d_id. dict_contains (documents (index st)) d_id)
                        (response_doc_ids (py_strip response))))"
    if h: "loaded (index st)" "documents (index st) \<noteq> []"
      "fst (get_summaries_for_selection (repr_other ev) (index st)) = Inr summaries"
      "api ev (length (api_calls st)) (selector_request query max_docs summaries) = Inr resp"
      "content0_text resp = Inr response"
      "cache_creation_input_tokens (resp_usage resp) \<noteq> NoneValue"
      "cache_read_input_tokens (resp_usage resp) \<noteq> NoneValue"
      and n: "py_upper (py_strip response) \<noteq> ''NONE''"
    for summaries resp response
  proof -
    have "fst (select_try ?idx max_docs (Inr resp)) =
               Inr (py_slice_to max_docs (valid_doc_ids ?idx (reply_lines response)))"
      using select_try_readable [OF h(5,6,7)] n by simp
    then show ?thesis
      using h(1-4) assms docs
      by (simp add: select_result valid_doc_ids_def py_slice_to_def response_doc_ids_reply_lines)
  qed
  from 1 2 show ?thesis by blast
qed

section \<open>Properties of the context assembler and the response generator\<close>

lemma context_parts_enumerate:
  "context_parts ro i ds parts =
     parts @ map (\<lambda>(j, d). context_block ro j d) (List.enumerate i ds)"
  by (induction ds arbitrary: i parts) simp_all

text \<open>
  Claim C9.  The context for no document is the empty string.  Otherwise it is the blocks
  of the documents, in their order and numbered from 1, joined by blank lines; a block
  holds the number, the title, the category and the article.  For one document the
  context is the single block numbered 1.  The function is total and touches no state.
\<close>
theorem format_context_blocks:
  "format_context_for_claude ro [] = []
   \<and> format_context_for_claude ro docs =
       py_join ''\<newline>\<newline>''
         (map (\<lambda>(i, d).
                 ''--- Document '' @ str_nat i @ '': ''
                   @ py_str ro (dict_get d ''title'' (JStr ''Untitled'')) @ '' ---\<newline>''
                   @ ''Category: '' @ py_str ro (dict_get d ''category'' (JStr [])) @ ''\<newline>''
                   @ ''Content:\<newline>'' @ py_str ro (dict_get d ''article'' (JStr []))
                   @ ''\<newline>'')
            (List.enumerate 1 docs))
   \<and> format_context_for_claude ro [d] =
       ''--- Document 1: ''
         @ py_str ro (dict_get d ''title'' (JStr ''Untitled'')) @ '' ---\<newline>''
         @ ''Category: '' @ py_str ro (dict_get d ''category'' (JStr [])) @ ''\<newline>''
         @ ''Content:\<newline>'' @ py_str ro (dict_get d ''article'' (JStr [])) @ ''\<newline>''"
proof -
  have blk: "context_block ro i d =
       ''--- Document '' @ str_nat i @ '': ''
         @ py_str ro (dict_get d ''title'' (JStr ''Untitled'')) @ '' ---\<newline>''
         @ ''Category: '' @ py_str ro (dict_get d ''category'' (JStr [])) @ ''\<newline>''
         @ ''Content:\<newline>'' @ py_str ro (dict_get d ''article'' (JStr [])) @ ''\<newline>''"
    for i d
    by (simp add: context_block_def Let_def)
  have one: "str_nat (Suc 0) = ''1''"
    by (simp add: str_nat.simps digit_char_def)
  have 1: "format_context_for_claude ro [] = []"
    by (simp add: format_context_for_claude_def)
  have 2: "format_context_for_claude ro docs =
       py_join ''\<newline>\<newline>'' (map (\<lambda>(i, d). context_block ro i d) (List.enumerate 1 docs))"
    by (simp add: format_context_for_claude_def context_parts_enumerate)
  have single: "format_context_for_claude ro [d] = context_block ro 1 d"
    by (simp add: format_context_for_claude_def)
  have expanded: "format_context_for_claude ro [d] =
       ''--- Document 1: ''
         @ py_str ro (dict_get d ''title'' (JStr ''Untitled'')) @ '' ---\<newline>''
         @ ''Category: '' @ py_str ro (dict_get d ''category'' (JStr [])) @ ''\<newline>''
         @ ''Content:\<newline>'' @ py_str ro (dict_get d ''article'' (JStr [])) @ ''\<newline>''"
    using single by (simp add: blk one)
  show ?thesis
    by (rule conjI [OF 1 conjI [OF 2 [unfolded blk] expanded]])
qed

lemma select_conversations:
  "conversations (snd (select_relevant_docs ev query max_docs st)) = conversations st"
  by (simp add: select_relevant_docs_def Let_def split: prod.splits sum.splits)

lemma retrieve_conversations:
  "conversations (snd (retrieve_documents ev query max_docs st)) = conversations st"
proof -
  obtain r st1 where s: "select_relevant_docs ev query max_docs st = (r, st1)"
    by (cases "select_relevant_docs ev query max_docs st")
  then have "conversations st1 = conversations st"
    using select_conversations [of ev query max_docs st] by simp
  then show ?thesis
    by (simp add: retrieve_documents_def s split: sum.splits)
qed

lemma ensure_session_lookup:
  "conversations (ensure_session user_id st) user_id = Some (session_of st user_id)"
  by (simp add: ensure_session_def session_of_def split: option.splits)

lemma ensure_session_update:
  "(conversations (ensure_session user_id st))(user_id \<mapsto> h) = (conversations st)(user_id \<mapsto> h)"
  by (simp add: ensure_session_def)

lemma ask_claude_unfold:
  assumes "retrieve_documents ev message 3 (ensure_session user_id st) = (Inr docs, st1)"
  shows "ask_claude ev user_id message st =
     (let kept = py_slice_last 10 (session_of st user_id @ [\<lparr>role = ''user'', content = message\<rparr>]);
          req = generation_request (build_system_prompt (repr_other ev) docs) kept;
          st2 = (if docs \<noteq> [] then
                   st1\<lparr>log_records :=
                         log_records st1 @ [(INFO, Added_documents (length docs))]\<rparr>
                 else st1);
          st4 = st2\<lparr>conversations := (conversations st)(user_id \<mapsto> kept),
                    api_calls := api_calls st1 @ [req]\<rparr>
      in (case generation_reply (api ev (length (api_calls st1)) req) of
            Inr reply \<Rightarrow>
              (Inr reply,
               st4\<lparr>conversations :=
                     (conversations st)
                       (user_id \<mapsto> kept @ [\<lparr>role = ''assistant'', content = reply\<rparr>])\<rparr>)
          | Inl e \<Rightarrow>
              (Inr (''API error: '' @ exc_str e),
               st4\<lparr>log_records := log_records st4 @ [(ERROR, Claude_API_error e)]\<rparr>)))"
proof -
  have c: "conversations st1 = conversations (ensure_session user_id st)"
    using retrieve_conversations [of ev message 3 "ensure_session user_id st"] assms by simp
  show ?thesis
    by (simp add: ask_claude_def assms Let_def dict_getitem_map_def c ensure_session_lookup
        ensure_session_update split: sum.splits)
qed

text \<open>
  Claim C2, as amended.  When the retrieval has returned and the generation step (the API
  call or the reading of its reply) fails with \<open>e\<close>, \<^verbatim>\<open>ask_claude\<close> does not raise: it
  returns the text \<^verbatim>\<open>API error: \<close> followed by the message of \<open>e\<close>.  No assistant turn
  is stored, but the user's turn is: the session afterwards is the session before with
  the user turn appended, cut to its last 10 turns.  The other sessions are unchanged.
\<close>
theorem ask_claude_generation_failure:
  assumes "retrieve_documents ev message 3 (ensure_session user_id st) = (Inr docs, st1)"
    and "generation_reply
           (api ev (length (api_calls st1))
              (generation_request (build_system_prompt (repr_other ev) docs)
                 (py_slice_last 10
                    (session_of st user_id @ [\<lparr>role = ''user'', content = message\<rparr>]))))
         = Inl e"
  shows "fst (ask_claude ev user_id message st) = Inr (''API error: '' @ exc_str e)
       \<and> conversations (snd (ask_claude ev user_id message st)) =
           (conversations st)
             (user_id \<mapsto> py_slice_last 10
                (session_of st user_id @ [\<lparr>role = ''user'', content = message\<rparr>]))"
  using assms(2) by (simp add: ask_claude_unfold [OF assms(1)] Let_def)

lemma ask_claude_generation_success:
  assumes "retrieve_documents ev message 3 (ensure_session user_id st) = (Inr docs, st1)"
    and "generation_reply
           (api ev (length (api_calls st1))
              (generation_request (build_system_prompt (repr_other ev) docs)
                 (py_slice_last 10
                    (session_of st user_id @ [\<lparr>role = ''user'', content = message\<rparr>]))))
         = Inr reply"
  shows "fst (ask_claude ev user_id message st) = Inr reply
       \<and> conversations (snd (ask_claude ev user_id message st)) =
           (conversations st)
             (user_id \<mapsto> py_slice_last 10
                (session_of st user_id @ [\<lparr>role = ''user'', content = message\<rparr>])
               @ [\<lparr>role = ''assistant'', content = reply\<rparr>])"
  using assms(2) by (simp add: ask_claude_unfold [OF assms(1)] Let_def)

section \<open>The properties at the example inputs\<close>

lemmas example_defs = example_fs_def doc_info_files_def more_files_def cancel_json_def
  payout_json_def refund_json_def payout_json_v2_def cancel_doc_def payout_doc_def
  refund_doc_def payout_doc_v2_def example_index_def

lemma load_doc_info:
  "fst (load_from_directory example_fs ''doc_info'' (DocumentIndex_init, [])) = example_index"
  by (simp add: load_from_directory_def load_file_def dict_setitem_def dict_get_def
      DocumentIndex_init_def example_defs)

lemma example_summaries:
  "get_summaries_for_selection example_repr example_index =
     (Inr example_listing, example_index\<lparr>summaries_cache := example_listing\<rparr>)"
  by (simp add: get_summaries_for_selection_def summary_entry_def dict_get_def Let_def
      str_nat.simps digit_char_def example_listing_def example_defs)

lemma cached_index_eq: "cached_index = example_index\<lparr>summaries_cache := example_listing\<rparr>"
  by (simp add: cached_index_def load_doc_info example_summaries)

lemma example_listing_nonempty: "example_listing \<noteq> []"
  by (simp add: example_listing_def)

text \<open>The lookup of a known, an unknown and another known id in the example index.\<close>
theorem get_documents_by_ids_lookup_witness:
  "get_documents_by_ids example_index [''payout'', ''nope'', ''cancel''] =
     Inr [payout_doc, cancel_doc]"
  using get_documents_by_ids_lookup [of example_index "[''payout'', ''nope'', ''cancel'']"]
  by (simp add: example_index_def)

lemma parsed_more_files: "parsed_files more_files = [(''payout'', payout_doc_v2)]"
  by (simp add: parsed_files_def load_file_def dict_setitem_def example_defs)

text \<open>Loading the directory \<^verbatim>\<open>more\<close> into the example index: the document
  \<^verbatim>\<open>cancel\<close> stays, the document \<^verbatim>\<open>payout\<close> is replaced by the file of that stem.\<close>
theorem load_from_directory_merges_witness:
  "example_fs ''more'' = Some more_files
   \<and> map_of (documents example_index) ''cancel'' = Some cancel_doc
   \<and> map_of (documents (fst (load_from_directory example_fs ''more'' (example_index, []))))
        ''cancel'' = Some cancel_doc
   \<and> map_of (documents example_index) ''payout'' = Some payout_doc
   \<and> map_of (documents (fst (load_from_directory example_fs ''more'' (example_index, []))))
        ''payout'' = Some payout_doc_v2"
proof -
  have h: "example_fs ''more'' = Some more_files"
    by (simp add: example_fs_def)
  from load_from_directory_merges
         [where fs = example_fs and directory = "''more''" and self = example_index
            and lg = "[]", OF h]
  have "map_of (documents (fst (load_from_directory example_fs ''more'' (example_index, [])))) =
          map_of (documents example_index) ++ map_of (rev (parsed_files more_files))"
    by (rule conjunct1)
  then show ?thesis
    using h by (simp add: parsed_more_files example_index_def)
qed

text \<open>Loading a directory that does not exist into the index that holds documents and a
  cached listing changes nothing.\<close>
theorem load_from_directory_missing_witness:
  "example_fs ''nowhere'' = None
   \<and> load_from_directory example_fs ''nowhere'' (cached_index, []) =
       (cached_index, [(WARNING, Directory_not_found ''nowhere'')])"
proof -
  have h: "example_fs ''nowhere'' = None"
    by (simp add: example_fs_def)
  from load_from_directory_missing
         [where fs = example_fs and directory = "''nowhere''" and self = cached_index
            and lg = "[]", OF h] h
  show ?thesis by simp
qed

text \<open>
  Claim C3 as stated fails: after the start-up load and one summaries listing, a load of
  a directory that does not exist leaves the store non-empty, the loaded flag true and the
  cached listing in place.
\<close>
theorem load_from_directory_missing_counterexample:
  "example_fs ''nowhere'' = None
   \<and> documents (fst (load_from_directory example_fs ''nowhere'' (cached_index, []))) \<noteq> []
   \<and> loaded (fst (load_from_directory example_fs ''nowhere'' (cached_index, [])))
   \<and> summaries_cache (fst (load_from_directory example_fs ''nowhere'' (cached_index, []))) \<noteq> []"
  by (simp add: load_from_directory_def example_fs_def cached_index_eq example_index_def
      example_listing_nonempty)

text \<open>On the example state the first listing stores the example listing in the cache; a
  listing, a selection, a question and another listing later the index is the same, and
  the listing is the cached one even for an index whose documents are gone.\<close>
theorem summaries_listing_stable_witness:
  "fst (get_summaries_for_selection example_repr
          (index (perform_all (example_env (reply_api ''cancel''))
                    [Summaries, Select ''How do I cancel?'' 2, Ask ''U1'' ''help'', Summaries]
                    example_state))) =
     Inr example_listing
   \<and> summaries_cache (snd (get_summaries_for_selection example_repr example_index)) =
       example_listing
   \<and> index (perform_all (example_env (reply_api ''cancel''))
               [Select ''How do I cancel?'' 2, Ask ''U1'' ''help'', Summaries]
               (example_state\<lparr>index := cached_index\<rparr>)) = cached_index
   \<and> get_summaries_for_selection example_repr (cached_index\<lparr>documents := []\<rparr>) =
       (Inr example_listing, cached_index\<lparr>documents := []\<rparr>)"
proof -
  let ?ev = "example_env (reply_api ''cancel'')"
  have ro: "repr_other ?ev = example_repr"
    by (simp add: example_env_def)
  have first: "fst (get_summaries_for_selection example_repr (index example_state)) =
                 Inr example_listing"
    by (simp add: example_state_def example_summaries)
  note fresh = summaries_listing_stable
                 [of ?ev "[Summaries, Select ''How do I cancel?'' 2, Ask ''U1'' ''help'', Summaries]"
                    example_state, unfolded ro]
  note later = summaries_listing_stable
                 [of ?ev "[Select ''How do I cancel?'' 2, Ask ''U1'' ''help'', Summaries]"
                    "example_state\<lparr>index := cached_index\<rparr>", unfolded ro]
  have c: "summaries_cache (index (example_state\<lparr>index := cached_index\<rparr>)) = example_listing"
    by (simp add: cached_index_eq)
  have 1: "fst (get_summaries_for_selection example_repr
             (index (perform_all ?ev
                       [Summaries, Select ''How do I cancel?'' 2, Ask ''U1'' ''help'', Summaries]
                       example_state))) = Inr example_listing"
    using fresh first by simp
  have 2: "summaries_cache (snd (get_summaries_for_selection example_repr example_index)) =
             example_listing"
    using fresh first example_listing_nonempty by (simp add: example_state_def)
  have 3: "index (perform_all ?ev [Select ''How do I cancel?'' 2, Ask ''U1'' ''help'', Summaries]
                    (example_state\<lparr>index := cached_index\<rparr>)) = cached_index"
    using later c example_listing_nonempty by simp
  have 4: "get_summaries_for_selection example_repr (cached_index\<lparr>documents := []\<rparr>) =
             (Inr example_listing, cached_index\<lparr>documents := []\<rparr>)"
    using later c example_listing_nonempty by simp
  show ?thesis
    by (rule conjI [OF 1 conjI [OF 2 conjI [OF 3 4]]])
qed

lemma empty_index_eq:
  "empty_index = \<lparr>documents = [], loaded = True, summaries_cache = []\<rparr>"
  by (simp add: empty_index_def load_from_directory_def empty_dir_fs_def DocumentIndex_init_def)

text \<open>
  Claim C7 as stated fails for a generation without documents: after the start-up load of
  an empty directory the listing is the empty string, which the cache test takes for no
  cache.  The call leaves the cache empty, and the call after it builds the listing from
  the documents again.
\<close>
theorem summaries_listing_memoized_counterexample:
  "documents empty_index = []
   \<and> loaded empty_index
   \<and> get_summaries_for_selection example_repr empty_index = (Inr [], empty_index)
   \<and> summaries_cache (snd (get_summaries_for_selection example_repr empty_index)) = []
   \<and> fst (get_summaries_for_selection example_repr
            ((snd (get_summaries_for_selection example_repr empty_index))
               \<lparr>documents := [(''refund'', refund_doc)]\<rparr>)) \<noteq> Inr []"
  by (simp add: empty_index_eq get_summaries_for_selection_def summary_entry_def dict_get_def
      Let_def refund_doc_def)

lemmas string_eval = py_strip_def py_lstrip_def py_rstrip_def py_isspace_def py_upper_def
  upper_char_def py_lower_def lower_char_def

lemma example_state_index: "index example_state = example_index"
  by (simp add: example_state_def)

lemma example_state_calls: "api_calls example_state = []"
  by (simp add: example_state_def initial_state_def)

lemma example_state_log: "log_records example_state = []"
  by (simp add: example_state_def initial_state_def)

lemma example_index_fields:
  "loaded example_index" "documents example_index \<noteq> []"
  "fst ` set (documents example_index) = {''cancel'', ''payout'', ''refund''}"
  by (simp_all add: example_index_def)

lemma example_state_ready:
  "loaded (index example_state)" "documents (index example_state) \<noteq> []"
  "fst (get_summaries_for_selection (repr_other (example_env a)) (index example_state)) =
     Inr example_listing"
  by (simp_all add: example_state_index example_index_fields example_env_def example_summaries)

lemma reply_api_answer:
  "api (example_env (reply_api t)) (length (api_calls example_state))
     (selector_request query max_docs example_listing) =
     Inr \<lparr>resp_content = [TextBlock t], resp_usage = text_usage\<rparr>"
  by (simp add: example_env_def reply_api_def)

lemma text_response:
  "content0_text \<lparr>resp_content = [TextBlock t], resp_usage = u\<rparr> = Inr t"
  by (simp add: content0_text_def)

lemma text_usage_counters:
  "cache_creation_input_tokens (resp_usage \<lparr>resp_content = c, resp_usage = text_usage\<rparr>)
     \<noteq> NoneValue"
  "cache_read_input_tokens (resp_usage \<lparr>resp_content = c, resp_usage = text_usage\<rparr>)
     \<noteq> NoneValue"
  by (simp_all add: text_usage_def)

lemma none_usage_select:
  "select_relevant_docs (example_env (none_usage_api t)) query max_docs example_state =
     (Inr [],
      example_state
        \<lparr>index := example_index\<lparr>summaries_cache := example_listing\<rparr>,
         api_calls := [selector_request query max_docs example_listing],
         log_records :=
           [(INFO, Querying_Haiku (take 50 query)),
            (DEBUG, Haiku_response (py_strip t)),
            (ERROR, Error_calling_Haiku
               (Raised ''TypeError''
                  ([CHR 0x27] @ ''>'' @ [CHR 0x27] @ '' not supported between instances of ''
                     @ [CHR 0x27] @ ''NoneType'' @ [CHR 0x27] @ '' and ''
                     @ [CHR 0x27] @ ''int'' @ [CHR 0x27])))]\<rparr>)"
  by (simp add: select_relevant_docs_def example_state_index example_state_calls
      example_state_log example_index_fields example_env_def example_summaries
      none_usage_api_def none_usage_def Let_def select_try_def content0_text_def)

text \<open>The selector on the initial state, whose index is not loaded.\<close>
theorem select_fails_fast_witness:
  "loaded (index initial_state) = False
   \<and> select_relevant_docs (example_env failing_api) ''How do I cancel?'' 3 initial_state =
       (Inr [], initial_state\<lparr>log_records := [(WARNING, No_documents_loaded)]\<rparr>)
   \<and> api_calls (snd (select_relevant_docs (example_env failing_api) ''How do I cancel?'' 3
                        initial_state)) = []"
proof -
  have h: "\<not> loaded (index initial_state) \<or> documents (index initial_state) = []"
    by (simp add: initial_state_def DocumentIndex_init_def)
  have l: "loaded (index initial_state) = False"
    by (simp add: initial_state_def DocumentIndex_init_def)
  from select_fails_fast [OF h, of "example_env failing_api" "''How do I cancel?''" 3] l
  show ?thesis by (simp add: initial_state_def)
qed



text \<open>With \<open>max_docs = 2\<close> and a reply of one unknown and three known ids, the first two
  known ids are returned (cutting the reply to two lines first would leave one).\<close>
theorem select_truncates_after_filtering_witness:
  "(0::int) \<le> 2
   \<and> api (example_env (reply_api ''missing\<newline>cancel\<newline>payout\<newline>refund''))
        (length (api_calls example_state))
        (selector_request ''How do I cancel?'' 2 example_listing)
       = Inr \<lparr>resp_content = [TextBlock ''missing\<newline>cancel\<newline>payout\<newline>refund''],
              resp_usage = text_usage\<rparr>
   \<and> py_upper (py_strip ''missing\<newline>cancel\<newline>payout\<newline>refund'') \<noteq> ''NONE''
   \<and> fst (select_relevant_docs
            (example_env (reply_api ''missing\<newline>cancel\<newline>payout\<newline>refund''))
            ''How do I cancel?'' 2 example_state)
       = Inr [''cancel'', ''payout'']"
proof -
  let ?t = "''missing\<newline>cancel\<newline>payout\<newline>refund''"
  let ?resp = "\<lparr>resp_content = [TextBlock ?t], resp_usage = text_usage\<rparr>"
  have z: "(0::int) \<le> 2" by simp
  have h: "api (example_env (reply_api ?t)) (length (api_calls example_state))
             (selector_request ''How do I cancel?'' 2 example_listing) = Inr ?resp"
    by (rule reply_api_answer)
  have none: "py_upper (py_strip ?t) \<noteq> ''NONE''"
    by (simp add: string_eval)
  have ids: "response_doc_ids (py_strip ?t) = [''missing'', ''cancel'', ''payout'', ''refund'']"
    by (simp add: response_doc_ids_def string_eval)
  from select_truncates_after_filtering
         [OF z, of "example_env (reply_api ?t)" "''How do I cancel?''" example_state]
  have "loaded (index example_state) \<and> documents (index example_state) \<noteq> []
          \<and> fst (get_summaries_for_selection (repr_other (example_env (reply_api ?t)))
                   (index example_state)) = Inr example_listing
          \<and> api (example_env (reply_api ?t)) (length (api_calls example_state))
               (selector_request ''How do I cancel?'' 2 example_listing) = Inr ?resp
          \<and> content0_text ?resp = Inr ?t
          \<and> cache_creation_input_tokens (resp_usage ?resp) \<noteq> NoneValue
          \<and> cache_read_input_tokens (resp_usage ?resp) \<noteq> NoneValue
          \<and> py_upper (py_strip ?t) \<noteq> ''NONE'' \<longrightarrow>
        fst (select_relevant_docs (example_env (reply_api ?t)) ''How do I cancel?'' 2
               example_state) =
          Inr (take (nat 2)
                 (filter (\<lambda>d_id. dict_contains (documents (index example_state)) d_id)
                    (response_doc_ids (py_strip ?t))))"
    by blast
  then have "fst (select_relevant_docs (example_env (reply_api ?t)) ''How do I cancel?'' 2
               example_state) =
          Inr (take (nat 2)
                 (filter (\<lambda>d_id. dict_contains (documents (index example_state)) d_id)
                    (response_doc_ids (py_strip ?t))))"
    using example_state_ready h text_response text_usage_counters none
    by blast
  then show ?thesis
    using h none
    by (simp add: ids example_state_index dict_contains_def example_index_fields)
qed

text \<open>
  Claim C4 as stated fails in two ways.  For a negative \<open>max_docs\<close> the slice
  \<^verbatim>\<open>valid_ids[:-1]\<close> drops the last of three known ids and returns two, which is more
  than \<open>- 1\<close>.  And for \<open>max_docs = 2\<close> and a reply of three known ids whose usage counter
  is \<^verbatim>\<open>None\<close>, the selector returns no id at all instead of the first two.
\<close>
theorem select_at_most_max_docs_counterexample:
  "fst (select_relevant_docs (example_env (reply_api ''cancel\<newline>payout\<newline>refund''))
          ''How do I cancel?'' (- 1) example_state)
     = Inr [''cancel'', ''payout'']
   \<and> \<not> int (length [''cancel'', ''payout'']) \<le> - 1
   \<and> valid_doc_ids (index example_state)
        (response_doc_ids (py_strip ''cancel\<newline>payout\<newline>refund''))
     = [''cancel'', ''payout'', ''refund'']
   \<and> fst (select_relevant_docs (example_env (none_usage_api ''cancel\<newline>payout\<newline>refund''))
            ''How do I cancel?'' 2 example_state)
     = Inr []"
proof -
  let ?t = "''cancel\<newline>payout\<newline>refund''"
  have ids: "response_doc_ids (py_strip ?t) = [''cancel'', ''payout'', ''refund'']"
    by (simp add: response_doc_ids_def string_eval)
  have none: "py_upper (py_strip ?t) \<noteq> ''NONE''"
    by (simp add: string_eval)
  have negative:
    "fst (select_relevant_docs (example_env (reply_api ?t)) ''How do I cancel?'' (- 1)
            example_state) = Inr [''cancel'', ''payout'']"
    by (simp add: select_relevant_docs_def example_state_index example_state_calls
        example_index_fields example_env_def example_summaries reply_api_def Let_def
        select_try_def content0_text_def text_usage_def ids none valid_doc_ids_def
        dict_contains_def py_slice_to_def)
  have valid: "valid_doc_ids (index example_state) (response_doc_ids (py_strip ?t)) =
                 [''cancel'', ''payout'', ''refund'']"
    by (simp add: ids valid_doc_ids_def dict_contains_def example_state_index
        example_index_fields)
  show ?thesis
    by (simp add: negative valid none_usage_select)
qed

lemma ask_claude_success_session_length:
  assumes "retrieve_documents ev message 3 (ensure_session user_id st) = (Inr docs, st1)"
    and "generation_reply
           (api ev (length (api_calls st1))
              (generation_request (build_system_prompt (repr_other ev) docs)
                 (py_slice_last 10
                    (session_of st user_id @ [\<lparr>role = ''user'', content = message\<rparr>]))))
         = Inr reply"
  shows "length (session_of (snd (ask_claude ev user_id message st)) user_id) =
           min 10 (length (session_of st user_id) + 1) + 1"
proof -
  have "conversations (snd (ask_claude ev user_id message st)) user_id =
          Some (py_slice_last 10
                  (session_of st user_id @ [\<lparr>role = ''user'', content = message\<rparr>])
                @ [\<lparr>role = ''assistant'', content = reply\<rparr>])"
    using ask_claude_generation_success [OF assms] by simp
  then show ?thesis
    by (simp add: session_of_def [of "snd (ask_claude ev user_id message st)"]
        py_slice_last_def min_def)
qed

lemma retrieve_not_loaded:
  assumes "index st = DocumentIndex_init"
  shows "retrieve_documents ev query max_docs st =
     (Inr [], st\<lparr>log_records := log_records st @ [(WARNING, No_documents_loaded)]\<rparr>)"
  using assms
  by (simp add: retrieve_documents_def select_relevant_docs_def DocumentIndex_init_def)

lemma ensure_session_index: "index (ensure_session user_id st) = index st"
  by (simp add: ensure_session_def)

lemma ensure_session_log: "log_records (ensure_session user_id st) = log_records st"
  by (simp add: ensure_session_def)

lemma ensure_session_calls: "api_calls (ensure_session user_id st) = api_calls st"
  by (simp add: ensure_session_def)

lemma talking_session: "session_of talking_state ''U1'' = two_turns"
  by (simp add: session_of_def talking_state_def)

text \<open>A user with a session of two turns asks while the API is unreachable.\<close>
theorem ask_claude_generation_failure_witness:
  "fst (ask_claude (example_env failing_api) ''U1'' ''help'' talking_state) =
     Inr ''API error: Connection error.''
   \<and> conversations (snd (ask_claude (example_env failing_api) ''U1'' ''help'' talking_state)) =
       (conversations talking_state)
         (''U1'' \<mapsto> two_turns @ [\<lparr>role = ''user'', content = ''help''\<rparr>])"
proof -
  let ?st0 = "ensure_session ''U1'' talking_state"
  let ?st1 = "?st0\<lparr>log_records := log_records ?st0 @ [(WARNING, No_documents_loaded)]\<rparr>"
  have i: "index ?st0 = DocumentIndex_init"
    by (simp add: ensure_session_index talking_state_def initial_state_def)
  have r: "retrieve_documents (example_env failing_api) ''help'' 3 ?st0 = (Inr [], ?st1)"
    using i by (rule retrieve_not_loaded)
  have g: "generation_reply
             (api (example_env failing_api) (length (api_calls ?st1))
                (generation_request
                   (build_system_prompt (repr_other (example_env failing_api)) [])
                   (py_slice_last 10
                      (session_of talking_state ''U1'' @ [\<lparr>role = ''user'', content = ''help''\<rparr>]))))
           = Inl (Raised ''APIConnectionError'' ''Connection error.'')"
    by (simp add: generation_reply_def example_env_def failing_api_def)
  from ask_claude_generation_failure [OF r g]
  show ?thesis
    by (simp add: talking_session two_turns_def py_slice_last_def)
qed

text \<open>
  Claim C2 as stated fails: after the failed call the user's session holds the new user
  turn, so it is not the session before the call.
\<close>
theorem ask_claude_session_unmodified_counterexample:
  "fst (ask_claude (example_env failing_api) ''U1'' ''help'' talking_state) =
     Inr ''API error: Connection error.''
   \<and> conversations talking_state ''U1'' = Some two_turns
   \<and> conversations (snd (ask_claude (example_env failing_api) ''U1'' ''help'' talking_state)) ''U1''
       = Some (two_turns @ [\<lparr>role = ''user'', content = ''help''\<rparr>])
   \<and> conversations (snd (ask_claude (example_env failing_api) ''U1'' ''help'' talking_state)) ''U1''
       \<noteq> conversations talking_state ''U1''"
proof -
  have i: "index (ensure_session ''U1'' talking_state) = DocumentIndex_init"
    by (simp add: ensure_session_index talking_state_def initial_state_def)
  have before: "conversations talking_state ''U1'' = Some two_turns"
    by (simp add: talking_state_def)
  have run: "ask_claude (example_env failing_api) ''U1'' ''help'' talking_state =
      (Inr ''API error: Connection error.'',
       talking_state
         \<lparr>conversations :=
            (conversations talking_state)
              (''U1'' \<mapsto> two_turns @ [\<lparr>role = ''user'', content = ''help''\<rparr>]),
          api_calls :=
            [generation_request SYSTEM_PROMPT
               (two_turns @ [\<lparr>role = ''user'', content = ''help''\<rparr>])],
          log_records :=
            [(WARNING, No_documents_loaded),
             (ERROR, Claude_API_error (Raised ''APIConnectionError'' ''Connection error.''))]\<rparr>)"
    by (simp add: ask_claude_unfold [OF retrieve_not_loaded [OF i]] Let_def
        build_system_prompt_def generation_reply_def example_env_def failing_api_def
        ensure_session_calls ensure_session_log talking_session)
      (simp add: ensure_session_def talking_state_def initial_state_def two_turns_def
        py_slice_last_def)
  show ?thesis
    by (simp add: run before)
qed

text \<open>The context of the one document \<^verbatim>\<open>cancel\<close>.\<close>
theorem format_context_blocks_witness:
  "format_context_for_claude example_repr [cancel_doc] =
     ''--- Document 1: Cancelling a guest reservation ---\<newline>''
     @ ''Category: Reservations\<newline>''
     @ ''Content:\<newline>''
     @ ''Open the booking and choose Cancel.\<newline>''"
proof -
  from format_context_blocks [of example_repr "[]" cancel_doc]
  have "format_context_for_claude example_repr [cancel_doc] =
       ''--- Document 1: ''
         @ py_str example_repr (dict_get cancel_doc ''title'' (JStr ''Untitled'')) @ '' ---\<newline>''
         @ ''Category: '' @ py_str example_repr (dict_get cancel_doc ''category'' (JStr []))
         @ ''\<newline>''
         @ ''Content:\<newline>'' @ py_str example_repr (dict_get cancel_doc ''article'' (JStr []))
         @ ''\<newline>''"
    by blast
  then show ?thesis
    by (simp add: dict_get_def cancel_doc_def)
qed

lemma ask_ok:
  assumes "index st = DocumentIndex_init"
  shows "snd (ask_claude (example_env (reply_api ''ok'')) user_id message st) =
     st\<lparr>conversations := (conversations st)
            (user_id \<mapsto> py_slice_last 10
               (session_of st user_id @ [\<lparr>role = ''user'', content = message\<rparr>])
               @ [\<lparr>role = ''assistant'', content = ''ok''\<rparr>]),
        api_calls := api_calls st @
          [generation_request SYSTEM_PROMPT
             (py_slice_last 10 (session_of st user_id @ [\<lparr>role = ''user'', content = message\<rparr>]))],
        log_records := log_records st @ [(WARNING, No_documents_loaded)]\<rparr>"
proof -
  have i: "index (ensure_session user_id st) = DocumentIndex_init"
    using assms by (simp add: ensure_session_index)
  show ?thesis
    by (simp add: ask_claude_unfold [OF retrieve_not_loaded [OF i]] Let_def
        build_system_prompt_def generation_reply_def example_env_def reply_api_def
        content0_text_def ensure_session_calls ensure_session_log)
      (simp add: ensure_session_def)
qed

text \<open>
  Claim C1, the code at a failing input.  The session is cut to its last 10 turns after
  the user turn is appended and before the API is called; the assistant turn is appended
  after that and nothing is cut then.  After six answered messages of one user, 12 turns
  in all, the session holds 11 turns: only the first user turn is gone.
\<close>
theorem six_exchanges_keep_eleven_turns:
  "conversations
     (ask_all (example_env (reply_api ''ok'')) ''U1'' [''m1'', ''m2'', ''m3'', ''m4'', ''m5'', ''m6'']
        initial_state) ''U1'' =
     Some [\<lparr>role = ''assistant'', content = ''ok''\<rparr>,
           \<lparr>role = ''user'', content = ''m2''\<rparr>, \<lparr>role = ''assistant'', content = ''ok''\<rparr>,
           \<lparr>role = ''user'', content = ''m3''\<rparr>, \<lparr>role = ''assistant'', content = ''ok''\<rparr>,
           \<lparr>role = ''user'', content = ''m4''\<rparr>, \<lparr>role = ''assistant'', content = ''ok''\<rparr>,
           \<lparr>role = ''user'', content = ''m5''\<rparr>, \<lparr>role = ''assistant'', content = ''ok''\<rparr>,
           \<lparr>role = ''user'', content = ''m6''\<rparr>, \<lparr>role = ''assistant'', content = ''ok''\<rparr>]"
  by (simp add: ask_ok initial_state_def session_of_def py_slice_last_def)

end
